theory Spec2Isabelle
  imports Complex_Main
begin

section \<open>Array values\<close>

text \<open>
  The notebook computes on float64 arrays. A value is a number, one of the two
  infinities, or NaN, which xarray uses as the no-data marker. Addition,
  multiplication and division round their exact result to float64 and overflow to
  an infinity. The sign of zero is left out of the model.
\<close>

datatype float64 = NInf | Fin real | PInf | NaN

text \<open>
  Rounding to float64: to the nearest number with a mantissa of 53 bits, ties to the
  even mantissa. The exponent of the last bit does not go below \<open>- 1074\<close> (gradual
  underflow), and a result beyond the largest float64 number is an infinity.
\<close>

definition round_half_even :: "real \<Rightarrow> int" where
  "round_half_even x =
     (let f = \<lfloor>x\<rfloor>; d = x - of_int f
      in if d < 1 / 2 then f else if 1 / 2 < d then f + 1
         else if even f then f else f + 1)"

definition f64_exponent :: "real \<Rightarrow> int" where
  "f64_exponent x = max (\<lfloor>log 2 \<bar>x\<bar>\<rfloor> - 52) (- 1074)"

definition round_f64 :: "real \<Rightarrow> real" where
  "round_f64 x =
     (if x = 0 then 0
      else sgn x * of_int (round_half_even (\<bar>x\<bar> / 2 powi f64_exponent x))
             * 2 powi f64_exponent x)"

definition max_f64 :: real where
  "max_f64 = (2 ^ 53 - 1) * 2 ^ 971"

definition f64_of_real :: "real \<Rightarrow> float64" where
  "f64_of_real x =
     (let y = round_f64 x
      in if max_f64 < \<bar>y\<bar> then (if 0 < x then PInf else NInf) else Fin y)"

text \<open>The comparisons \<open>x > c\<close> and \<open>x < c\<close> of the source: false whenever \<open>x\<close> is NaN.\<close>

fun fgt :: "float64 \<Rightarrow> real \<Rightarrow> bool" where
  "fgt (Fin a) c = (c < a)"
| "fgt PInf c = True"
| "fgt NInf c = False"
| "fgt NaN c = False"

fun flt :: "float64 \<Rightarrow> real \<Rightarrow> bool" where
  "flt (Fin a) c = (a < c)"
| "flt NInf c = True"
| "flt PInf c = False"
| "flt NaN c = False"

fun isnan :: "float64 \<Rightarrow> bool" where
  "isnan NaN = True"
| "isnan v = False"

fun fadd :: "float64 \<Rightarrow> float64 \<Rightarrow> float64" where
  "fadd NaN y = NaN"
| "fadd x NaN = NaN"
| "fadd (Fin a) (Fin b) = f64_of_real (a + b)"
| "fadd PInf NInf = NaN"
| "fadd NInf PInf = NaN"
| "fadd PInf y = PInf"
| "fadd x PInf = PInf"
| "fadd NInf y = NInf"
| "fadd x NInf = NInf"

fun fneg :: "float64 \<Rightarrow> float64" where
  "fneg (Fin a) = Fin (- a)"
| "fneg PInf = NInf"
| "fneg NInf = PInf"
| "fneg NaN = NaN"

text \<open>Multiplication by a finite float64 constant \<open>c\<close>, as in \<open>0.45 * x\<close>.\<close>

fun fscale :: "real \<Rightarrow> float64 \<Rightarrow> float64" where
  "fscale c (Fin a) = f64_of_real (c * a)"
| "fscale c NaN = NaN"
| "fscale c PInf = (if c = 0 then NaN else if 0 < c then PInf else NInf)"
| "fscale c NInf = (if c = 0 then NaN else if 0 < c then NInf else PInf)"

text \<open>
  Division. A finite value divided by zero is an infinity of the sign of the
  numerator, and \<open>0 / 0\<close> is NaN; a zero divisor is taken as \<open>+0\<close>.
\<close>

fun fdiv :: "float64 \<Rightarrow> float64 \<Rightarrow> float64" where
  "fdiv NaN y = NaN"
| "fdiv x NaN = NaN"
| "fdiv (Fin a) (Fin b) =
     (if b = 0 then (if a = 0 then NaN else if 0 < a then PInf else NInf)
      else f64_of_real (a / b))"
| "fdiv (Fin a) y = Fin 0"
| "fdiv x (Fin b) = (if (x = PInf) = (0 \<le> b) then PInf else NInf)"
| "fdiv x y = NaN"

text \<open>
  \<open>x ** e\<close> for an exponent \<open>e\<close> that is positive and not an integer: a negative
  base has no real power and gives NaN, both infinities give \<open>+inf\<close>. The power
  of a finite base is taken as the exact real power: the library function is
  accurate to the last bit but is not specified to round correctly.
\<close>

fun fpow :: "float64 \<Rightarrow> real \<Rightarrow> float64" where
  "fpow (Fin a) e = (if a < 0 then NaN else Fin (a powr e))"
| "fpow NaN e = NaN"
| "fpow PInf e = PInf"
| "fpow NInf e = PInf"

text \<open>
  The order in which numpy sorts: by value, with NaN after everything else.
\<close>

instantiation float64 :: linorder
begin

fun less_eq_float64 :: "float64 \<Rightarrow> float64 \<Rightarrow> bool" where
  "less_eq_float64 x NaN = True"
| "less_eq_float64 NaN y = False"
| "less_eq_float64 NInf y = True"
| "less_eq_float64 x NInf = False"
| "less_eq_float64 x PInf = True"
| "less_eq_float64 PInf y = False"
| "less_eq_float64 (Fin a) (Fin b) = (a \<le> b)"

definition less_float64 :: "float64 \<Rightarrow> float64 \<Rightarrow> bool" where
  "less_float64 x y = (x \<le> y \<and> \<not> y \<le> x)"

instance
proof
  fix x y z :: float64
  show "x < y \<longleftrightarrow> x \<le> y \<and> \<not> y \<le> x"
    by (simp add: less_float64_def)
  show "x \<le> x"
    by (cases x) simp_all
  show "x \<le> y \<Longrightarrow> y \<le> z \<Longrightarrow> x \<le> z"
    by (cases x; cases y; cases z) simp_all
  show "x \<le> y \<Longrightarrow> y \<le> x \<Longrightarrow> x = y"
    by (cases x; cases y) simp_all
  show "x \<le> y \<or> y \<le> x"
    by (cases x; cases y) auto
qed

end

section \<open>Reductions along one axis\<close>

text \<open>
  \<open>numpy.median\<close> of a one-dimensional array without NaN: sort, then take the mean
  of the middle element (odd length) or of the two middle elements (even length),
  which is their float64 sum divided by two. It is only called on a non-empty
  array.
\<close>

definition median1d :: "float64 list \<Rightarrow> float64" where
  "median1d ys =
     (let s = sort ys; n = length s; h = n div 2
      in if n mod 2 = 1 then s ! h
         else fdiv (fadd (s ! (h - 1)) (s ! h)) (Fin 2))"

text \<open>
  \<open>numpy.nanmedian\<close> of a one-dimensional array, which is what \<open>median\<close> of xarray
  computes for floating-point data (\<open>skipna\<close> is on by default): the NaN entries are
  removed first, and an array with nothing left gives NaN.
\<close>

definition nanmedian1d :: "float64 list \<Rightarrow> float64" where
  "nanmedian1d xs =
     (let ys = filter (\<lambda>v. \<not> isnan v) xs
      in if ys = [] then NaN else median1d ys)"

text \<open>\<open>numpy.nanmax\<close> of a non-empty one-dimensional array; NaN if every entry is NaN.\<close>

definition nanmax1d :: "float64 list \<Rightarrow> float64" where
  "nanmax1d xs =
     (case filter (\<lambda>v. \<not> isnan v) xs of
        [] \<Rightarrow> NaN
      | y # ys \<Rightarrow> fold max ys y)"

section \<open>Labelled arrays\<close>

text \<open>
  A \<open>DataArray\<close> with dimensions \<open>(band, y, x)\<close>: the band labels, the spatial
  shape and the values in row-major order. A stack has the dimension \<open>time\<close> in
  front, with one timestamp per frame. The array that \<open>stackstac.stack\<close> returns
  also carries the coordinate \<open>common_name\<close> along \<open>band\<close>.
\<close>

record Raster =
  band :: "string list"
  ny :: nat
  nx :: nat
  vals :: "float64 list"

record RasterStack = Raster +
  time :: "int list"

record StackstacArray = RasterStack +
  common_name :: "string list"

definition frame_size :: "'a Raster_scheme \<Rightarrow> nat" where
  "frame_size d = length (band d) * ny d * nx d"

definition wf_raster :: "Raster \<Rightarrow> bool" where
  "wf_raster c = (length (vals c) = frame_size c)"

definition wf_stack :: "'a RasterStack_scheme \<Rightarrow> bool" where
  "wf_stack d = (length (vals d) = length (time d) * frame_size d)"

definition wf_stackstac :: "StackstacArray \<Rightarrow> bool" where
  "wf_stackstac r = (wf_stack r \<and> length (common_name r) = length (band r))"

text \<open>Element access by position: \<open>c[b, y, x]\<close> and \<open>d[t, b, y, x]\<close>.\<close>

definition at3 :: "'a Raster_scheme \<Rightarrow> nat \<Rightarrow> nat \<Rightarrow> nat \<Rightarrow> float64" where
  "at3 c b y x = vals c ! ((b * ny c + y) * nx c + x)"

definition at4 :: "'a RasterStack_scheme \<Rightarrow> nat \<Rightarrow> nat \<Rightarrow> nat \<Rightarrow> nat \<Rightarrow> float64" where
  "at4 d t b y x = vals d ! (t * frame_size d + ((b * ny d + y) * nx d + x))"

text \<open>The pixel series of a pixel-band: its values across all time steps.\<close>

definition series :: "'a RasterStack_scheme \<Rightarrow> nat \<Rightarrow> nat \<Rightarrow> nat \<Rightarrow> float64 list" where
  "series d b y x = map (\<lambda>t. at4 d t b y x) [0..<length (time d)]"

section \<open>Cloud-free composite\<close>

text \<open>
  \<^verbatim>\<open>
  data = (
      stackstac.stack(signed_items, assets=["B04", "B03", "B02"], ...)
      .where(lambda x: x > 0)  # sentinel-2 uses 0 as nodata
      .assign_coords(band=lambda x: x.common_name.rename("band"))
  )
  \<close>
  \<open>where(cond, other)\<close> keeps a value where the condition holds and puts \<open>other\<close>
  elsewhere; without a second argument \<open>other\<close> is NaN. \<open>assign_coords\<close> replaces
  the band labels by the common names.
\<close>

definition xr_where :: "(float64 \<Rightarrow> bool) \<Rightarrow> float64 \<Rightarrow> float64 \<Rightarrow> float64" where
  "xr_where cond other v = (if cond v then v else other)"

definition data :: "StackstacArray \<Rightarrow> RasterStack" where
  "data r =
     \<lparr> band = common_name r, ny = ny r, nx = nx r,
       vals = map (xr_where (\<lambda>x. fgt x 0) NaN) (vals r), time = time r \<rparr>"

text \<open>
  \<^verbatim>\<open>
  median = data.median(dim="time")
  \<close>
  The reduction runs over the first axis: the value of the result at a position of
  the frame is the median of the values of all frames at that position.
\<close>

definition median :: "RasterStack \<Rightarrow> Raster" where
  "median d =
     \<lparr> band = band d, ny = ny d, nx = nx d,
       vals = map (\<lambda>j. nanmedian1d (map (\<lambda>t. vals d ! (t * frame_size d + j))
                                        [0..<length (time d)]))
                  [0..<frame_size d] \<rparr>"

text \<open>
  The scenario of the specification: five frames of one pixel, band \<open>red\<close>, with the
  values 200, 5, 210, 195 and 400, the second one flagged as no-data by the reader.
\<close>

definition example_scene :: StackstacArray where
  "example_scene =
     \<lparr> band = [''B04''], ny = 1, nx = 1,
       vals = [Fin 200, NaN, Fin 210, Fin 195, Fin 400],
       time = [0, 1, 2, 3, 4], common_name = [''red''] \<rparr>"

text \<open>The same scene with the value 5 left in place by the reader.\<close>

definition example_scene_unflagged :: StackstacArray where
  "example_scene_unflagged = example_scene\<lparr> vals := [Fin 200, Fin 5, Fin 210, Fin 195, Fin 400] \<rparr>"

text \<open>A pixel with a zero, a negative and a masked sample among five.\<close>

definition example_nodata :: StackstacArray where
  "example_nodata =
     \<lparr> band = [''B02''], ny = 1, nx = 1,
       vals = [Fin 0, Fin 300, NaN, Fin (- 7), Fin 500],
       time = [0, 1, 2, 3, 4], common_name = [''blue''] \<rparr>"




section \<open>True-colour rendering of the GOES frames\<close>

datatype error = KeyError | ValueError

text \<open>
  The position of a label along \<open>band\<close>. The labels of the arrays of the notebook are
  unique.
\<close>

fun index_of :: "string \<Rightarrow> string list \<Rightarrow> nat option" where
  "index_of l [] = None"
| "index_of l (k # ks) = (if k = l then Some 0 else map_option Suc (index_of l ks))"

text \<open>The values of band number \<open>k\<close> at time step \<open>t\<close>, and the whole frame at \<open>t\<close>.\<close>

definition plane :: "'a RasterStack_scheme \<Rightarrow> nat \<Rightarrow> nat \<Rightarrow> float64 list" where
  "plane d t k =
     map (\<lambda>j. vals d ! (t * frame_size d + k * (ny d * nx d) + j)) [0..<ny d * nx d]"

definition frame :: "'a RasterStack_scheme \<Rightarrow> nat \<Rightarrow> float64 list" where
  "frame d t = take (frame_size d) (drop (t * frame_size d) (vals d))"

text \<open>
  \<open>d.sel(band=l)\<close>: the array of dimensions \<open>(time, y, x)\<close> of one band, kept here as
  a stack whose only band is \<open>l\<close>; a label that is absent raises \<open>KeyError\<close>.
\<close>

definition sel_band :: "RasterStack \<Rightarrow> string \<Rightarrow> error + RasterStack" where
  "sel_band d l =
     (case index_of l (band d) of
        None \<Rightarrow> Inl KeyError
      | Some k \<Rightarrow>
          Inr \<lparr> band = [l], ny = ny d, nx = nx d,
                vals = concat (map (\<lambda>t. plane d t k) [0..<length (time d)]),
                time = time d \<rparr>)"

text \<open>
  \<^verbatim>\<open>
  green = (
      0.45 * data.sel(band="red")
      + 0.1 * data.sel(band="nir09")
      + 0.45 * data.sel(band="blue")
  ).assign_coords(band="green")
  \<close>
  In this half of the notebook \<open>data\<close> is the stack of GOES frames, the argument
  \<open>d\<close> below. The three arrays have the same shape and are combined position by
  position, in float64; the literals \<open>0.45\<close> and \<open>0.1\<close> are the float64 numbers
  nearest to them.
\<close>

definition green :: "RasterStack \<Rightarrow> error + RasterStack" where
  "green d =
     (case sel_band d ''red'' of Inl e \<Rightarrow> Inl e | Inr r \<Rightarrow>
     (case sel_band d ''nir09'' of Inl e \<Rightarrow> Inl e | Inr n \<Rightarrow>
     (case sel_band d ''blue'' of Inl e \<Rightarrow> Inl e | Inr b \<Rightarrow>
        Inr \<lparr> band = [''green''], ny = ny d, nx = nx d,
              vals = map (\<lambda>(vr, vn, vb).
                            fadd (fadd (fscale (round_f64 0.45) vr)
                                       (fscale (round_f64 0.1) vn))
                                 (fscale (round_f64 0.45) vb))
                         (zip (vals r) (zip (vals n) (vals b))),
              time = time d \<rparr>)))"

text \<open>
  \<open>xr.concat([d, g], dim="band")\<close> for two arrays on the same grid and time steps, and
  \<open>sel(band=ls)\<close> with a list of labels, which keeps the bands named in the order
  given.
\<close>

definition concat_band :: "RasterStack \<Rightarrow> RasterStack \<Rightarrow> RasterStack" where
  "concat_band d g =
     \<lparr> band = band d @ band g, ny = ny d, nx = nx d,
       vals = concat (map (\<lambda>t. concat (map (plane d t) [0..<length (band d)]) @
                                concat (map (plane g t) [0..<length (band g)]))
                          [0..<length (time d)]),
       time = time d \<rparr>"

definition sel_bands :: "RasterStack \<Rightarrow> string list \<Rightarrow> error + RasterStack" where
  "sel_bands d ls =
     (case those (map (\<lambda>l. index_of l (band d)) ls) of
        None \<Rightarrow> Inl KeyError
      | Some ks \<Rightarrow>
          Inr \<lparr> band = ls, ny = ny d, nx = nx d,
                vals = concat (map (\<lambda>t. concat (map (plane d t) ks)) [0..<length (time d)]),
                time = time d \<rparr>)"

text \<open>
  \<^verbatim>\<open>
  \<gamma> = 2.2

  rgb = xr.concat([data, green], dim="band").sel(band=["red", "green", "blue"])
  rgb = rgb / rgb.max(dim=["band", "y", "x"])
  rgb = rgb ** (1 / \<gamma>)
  rgb = rgb.where(lambda x: x > 0, 0).where(lambda x: x < 1, 1)
  \<close>
  One definition for each of the four assignments. The maximum is taken over the
  bands and pixels of one time step (NaN entries skipped) and every value of that
  time step is divided by it; the value at position \<open>i\<close> belongs to time step
  \<open>i div frame_size\<close>. The maximum over a frame without elements raises
  \<open>ValueError\<close>; a stack without time steps gives an empty array.
\<close>

definition \<gamma> :: real where
  "\<gamma> = 2.2"

definition rgb_select :: "RasterStack \<Rightarrow> error + RasterStack" where
  "rgb_select d =
     (case green d of
        Inl e \<Rightarrow> Inl e
      | Inr g \<Rightarrow> sel_bands (concat_band d g) [''red'', ''green'', ''blue''])"

definition rgb_normalize :: "RasterStack \<Rightarrow> error + RasterStack" where
  "rgb_normalize c =
     (if frame_size c = 0 then Inl ValueError
      else Inr (c\<lparr> vals :=
                    map (\<lambda>i. fdiv (vals c ! i) (nanmax1d (frame c (i div frame_size c))))
                        [0..<length (vals c)] \<rparr>))"

definition rgb_gamma :: "RasterStack \<Rightarrow> RasterStack" where
  "rgb_gamma c = c\<lparr> vals := map (\<lambda>v. fpow v (1 / \<gamma>)) (vals c) \<rparr>"

definition clamp01 :: "float64 \<Rightarrow> float64" where
  "clamp01 v = xr_where (\<lambda>x. flt x 1) (Fin 1) (xr_where (\<lambda>x. fgt x 0) (Fin 0) v)"

definition rgb_clamp :: "RasterStack \<Rightarrow> RasterStack" where
  "rgb_clamp c = c\<lparr> vals := map clamp01 (vals c) \<rparr>"

definition rgb :: "RasterStack \<Rightarrow> error + RasterStack" where
  "rgb d =
     (case rgb_select d of
        Inl e \<Rightarrow> Inl e
      | Inr c \<Rightarrow>
          (case rgb_normalize c of
             Inl e \<Rightarrow> Inl e
           | Inr n \<Rightarrow> Inr (rgb_clamp (rgb_gamma n))))"

text \<open>
  The rendering as the specification words it, to be compared with \<open>rgb\<close>: each
  channel of a time step is normalised on its own by its minimum and maximum,
  \<open>(v - lo) / (hi - lo)\<close>, then raised to \<open>1 / \<gamma>\<close> and clamped to \<open>[0, 1]\<close>.
\<close>

definition nanmin1d :: "float64 list \<Rightarrow> float64" where
  "nanmin1d xs =
     (case filter (\<lambda>v. \<not> isnan v) xs of
        [] \<Rightarrow> NaN
      | y # ys \<Rightarrow> fold min ys y)"

definition fsub :: "float64 \<Rightarrow> float64 \<Rightarrow> float64" where
  "fsub a b = fadd a (fneg b)"

definition spec_minmax_render :: "RasterStack \<Rightarrow> RasterStack" where
  "spec_minmax_render c =
     c\<lparr> vals :=
          map (\<lambda>i. let ch = plane c (i div frame_size c)
                                     ((i mod frame_size c) div (ny c * nx c));
                        lo = nanmin1d ch; hi = nanmax1d ch
                    in clamp01 (fpow (fdiv (fsub (vals c ! i) lo) (fsub hi lo)) (1 / \<gamma>)))
              [0..<length (vals c)] \<rparr>"

text \<open>
  One GOES frame of two pixels with the bands in the order of the assets
  \<open>C01\<close>, \<open>C02\<close>, \<open>C03\<close>, and a second one with a negative count.
\<close>

definition example_goes :: RasterStack where
  "example_goes =
     \<lparr> band = [''blue'', ''red'', ''nir09''], ny = 1, nx = 2,
       vals = [Fin 2, Fin 1, Fin 4, Fin 0, Fin 0, Fin 0],
       time = [0] \<rparr>"

text \<open>
  The bands \<open>red\<close>, \<open>green\<close>, \<open>blue\<close> selected from the first frame; the two green
  values are the float64 numbers nearest to 2.7 and 0.45.
\<close>

definition example_goes_selected :: RasterStack where
  "example_goes_selected =
     \<lparr> band = [''red'', ''green'', ''blue''], ny = 1, nx = 2,
       vals = [Fin 4, Fin 0, Fin (3039929748475085 / 2 ^ 50),
               Fin (8106479329266893 / 2 ^ 54), Fin 2, Fin 1],
       time = [0] \<rparr>"

definition example_goes_flat :: RasterStack where
  "example_goes_flat =
     \<lparr> band = [''blue'', ''red'', ''nir09''], ny = 1, nx = 2,
       vals = [Fin 4, Fin (- 4), Fin 4, Fin (- 4), Fin 4, Fin (- 4)],
       time = [0] \<rparr>"

text \<open>A GOES frame of one pixel with the count 63 in all three bands.\<close>

definition example_goes_63 :: RasterStack where
  "example_goes_63 =
     \<lparr> band = [''blue'', ''red'', ''nir09''], ny = 1, nx = 1,
       vals = [Fin 63, Fin 63, Fin 63],
       time = [0] \<rparr>"


section \<open>Properties of the arithmetic\<close>

lemma round_half_even_error: "\<bar>of_int (round_half_even m) - m\<bar> \<le> 1 / 2"
  unfolding round_half_even_def Let_def by (auto; linarith)


lemma floor_log2_bounds:
  assumes "0 < x"
  shows "2 powi \<lfloor>log 2 x\<rfloor> \<le> x" "x < 2 powi (\<lfloor>log 2 x\<rfloor> + 1)"
proof -
  have x: "2 powr log 2 x = x" using assms by simp
  have "2 powr real_of_int \<lfloor>log 2 x\<rfloor> \<le> 2 powr log 2 x"
    by (subst powr_le_cancel_iff) simp_all
  then show "2 powi \<lfloor>log 2 x\<rfloor> \<le> x"
    unfolding x by (metis powr_real_of_int' zero_le_numeral zero_neq_numeral)
  have "log 2 x < real_of_int (\<lfloor>log 2 x\<rfloor> + 1)" by linarith
  then have "2 powr log 2 x < 2 powr real_of_int (\<lfloor>log 2 x\<rfloor> + 1)"
    by (subst powr_less_cancel_iff) simp_all
  then show "x < 2 powi (\<lfloor>log 2 x\<rfloor> + 1)"
    unfolding x by (metis powr_real_of_int' zero_le_numeral zero_neq_numeral)
qed

lemma floor_log2_eqI:
  assumes "2 powi k \<le> x" "x < 2 powi (k + 1)"
  shows "\<lfloor>log 2 x\<rfloor> = k"
proof -
  have pos: "0 < x" using assms(1) by (smt (verit) zero_less_power_int)
  have p1: "(2::real) powr real_of_int k = 2 powi k"
    by (metis powr_real_of_int' zero_le_numeral zero_neq_numeral)
  have p2: "(2::real) powr (real_of_int k + 1) = 2 powi (k + 1)"
  proof -
    have "real_of_int k + 1 = real_of_int (k + 1)" by simp
    then show ?thesis by (metis powr_real_of_int' zero_le_numeral zero_neq_numeral)
  qed
  have "real_of_int k \<le> log 2 x"
    using assms(1) pos unfolding p1[symmetric] by (subst le_log_iff) simp_all
  moreover have "log 2 x < real_of_int k + 1"
    using assms(2) pos unfolding p2[symmetric] by (subst log_less_iff) simp_all
  ultimately show ?thesis by (simp add: floor_eq_iff)
qed

lemma round_f64_as_scaled:
  assumes "x \<noteq> 0"
  shows "round_f64 x - x =
     sgn x * (of_int (round_half_even (\<bar>x\<bar> / 2 powi f64_exponent x)) - \<bar>x\<bar> / 2 powi f64_exponent x)
       * 2 powi f64_exponent x"
proof -
  have "(2::real) powi f64_exponent x \<noteq> 0" by simp
  then have "sgn x * (\<bar>x\<bar> / 2 powi f64_exponent x) * 2 powi f64_exponent x = x"
    by (simp add: sgn_mult_abs)
  then show ?thesis using assms by (simp add: round_f64_def algebra_simps)
qed

lemma round_f64_error: "\<bar>round_f64 x - x\<bar> \<le> \<bar>x\<bar> / 2 ^ 53 + 1 / 2 ^ 1075"
proof (cases "x = 0")
  case True
  then show ?thesis by (simp add: round_f64_def)
next
  case False
  let ?e = "f64_exponent x"
  let ?m = "\<bar>x\<bar> / 2 powi ?e"
  have "\<bar>round_f64 x - x\<bar> = \<bar>of_int (round_half_even ?m) - ?m\<bar> * 2 powi ?e"
    unfolding round_f64_as_scaled[OF False] using False
    by (simp add: abs_mult abs_sgn_eq)
  also have "\<dots> \<le> 1 / 2 * 2 powi ?e"
    by (intro mult_right_mono round_half_even_error) simp
  finally have b: "\<bar>round_f64 x - x\<bar> \<le> 2 powi ?e / 2" by simp
  have "2 powi ?e / 2 \<le> \<bar>x\<bar> / 2 ^ 53 + 1 / 2 ^ 1075"
  proof (cases "\<lfloor>log 2 \<bar>x\<bar>\<rfloor> - 52 \<le> - 1074")
    case True
    then have "?e = - 1074" by (simp add: f64_exponent_def)
    then have "(2::real) powi ?e / 2 = 1 / 2 ^ 1075"
      by (simp add: power_int_minus field_simps)
    moreover have "0 \<le> \<bar>x\<bar> / 2 ^ 53" by simp
    ultimately show ?thesis by linarith
  next
    case False
    then have e: "?e = \<lfloor>log 2 \<bar>x\<bar>\<rfloor> - 52" by (simp add: f64_exponent_def)
    have "(2::real) powi ?e = 2 powi \<lfloor>log 2 \<bar>x\<bar>\<rfloor> / 2 ^ 52"
      unfolding e by (simp add: power_int_diff)
    also have "\<dots> \<le> \<bar>x\<bar> / 2 ^ 52"
      using floor_log2_bounds(1)[of "\<bar>x\<bar>"] \<open>x \<noteq> 0\<close> by (simp add: divide_right_mono)
    finally have "(2::real) powi ?e / 2 \<le> \<bar>x\<bar> / 2 ^ 53" by simp
    then show ?thesis by (smt (verit) divide_nonneg_pos zero_less_power)
  qed
  with b show ?thesis by linarith
qed

lemma round_f64_minus: "round_f64 (- x) = - round_f64 x"
  by (simp add: round_f64_def f64_exponent_def)

lemma round_f64_pos:
  assumes "0 < x" "b \<le> a + 1074" "2 ^ 52 \<le> x * 2 ^ b / 2 ^ a" "x * 2 ^ b / 2 ^ a < 2 ^ 53"
  shows "round_f64 x = of_int (round_half_even (x * 2 ^ b / 2 ^ a)) * 2 ^ a / 2 ^ b"
proof -
  let ?e = "int a - int b"
  have s: "(2::real) powi ?e = 2 ^ a / 2 ^ b"
    by (simp add: power_int_diff)
  have "(2::real) powi (?e + 52) = 2 ^ 52 * (2 ^ a / 2 ^ b)"
    by (simp add: power_int_add s)
  moreover have "(2::real) powi (?e + 52 + 1) = 2 ^ 53 * (2 ^ a / 2 ^ b)"
    by (simp add: power_int_add s)
  moreover have "2 ^ 52 * (2 ^ a / 2 ^ b) \<le> x" "x < 2 ^ 53 * (2 ^ a / 2 ^ b)"
    using assms(3,4) by (simp_all add: field_simps)
  ultimately have "\<lfloor>log 2 \<bar>x\<bar>\<rfloor> = ?e + 52"
    using assms(1) by (intro floor_log2_eqI) simp_all
  then have e: "f64_exponent x = ?e"
    using assms(2) by (simp add: f64_exponent_def)
  have d: "\<bar>x\<bar> / (2 ^ a / 2 ^ b) = x * 2 ^ b / 2 ^ a"
    using assms(1) by simp
  have "round_f64 x = sgn x * of_int (round_half_even (\<bar>x\<bar> / 2 powi ?e)) * 2 powi ?e"
    using assms(1) unfolding round_f64_def e by simp
  also have "\<dots> = of_int (round_half_even (x * 2 ^ b / 2 ^ a)) * (2 ^ a / 2 ^ b)"
    unfolding s d using assms(1) by simp
  finally show ?thesis by simp
qed

lemma f64_of_real_posI:
  assumes "0 < x" "b \<le> a + 1074" "2 ^ 52 \<le> x * 2 ^ b / 2 ^ a" "x * 2 ^ b / 2 ^ a < 2 ^ 53"
    and "of_int (round_half_even (x * 2 ^ b / 2 ^ a)) * 2 ^ a / 2 ^ b = y" "\<bar>y\<bar> \<le> max_f64"
  shows "f64_of_real x = Fin y"
  using round_f64_pos[OF assms(1-4)] assms(5,6) by (simp add: f64_of_real_def)

lemma f64_of_real_negI:
  assumes "x < 0" "b \<le> a + 1074" "2 ^ 52 \<le> - x * 2 ^ b / 2 ^ a" "- x * 2 ^ b / 2 ^ a < 2 ^ 53"
    and "- (of_int (round_half_even (- x * 2 ^ b / 2 ^ a)) * 2 ^ a / 2 ^ b) = y" "\<bar>y\<bar> \<le> max_f64"
  shows "f64_of_real x = Fin y"
proof -
  have "0 < - x" using assms(1) by simp
  from round_f64_pos[OF this assms(2)] assms(3,4)
  have "round_f64 (- x) = of_int (round_half_even (- x * 2 ^ b / 2 ^ a)) * 2 ^ a / 2 ^ b"
    by simp
  then have "round_f64 x = y" using assms(5) round_f64_minus[of x] by simp
  then show ?thesis using assms(6) by (simp add: f64_of_real_def)
qed

lemma f64_of_real_0: "f64_of_real 0 = Fin 0"
  by (simp add: f64_of_real_def round_f64_def max_f64_def)

lemma f64_of_real_not_nan: "\<not> isnan (f64_of_real x)"
  by (simp add: f64_of_real_def Let_def)

lemma half_not_nan: "\<not> isnan v \<Longrightarrow> \<not> isnan (fdiv v (Fin 2))"
  by (cases v) (simp_all add: f64_of_real_not_nan)

lemma fadd_pos_not_nan: "fgt a 0 \<Longrightarrow> fgt b 0 \<Longrightarrow> \<not> isnan (fadd a b)"
  by (cases a; cases b) (simp_all add: f64_of_real_not_nan)

lemma mean_not_nan: "fgt a 0 \<Longrightarrow> fgt b 0 \<Longrightarrow> \<not> isnan (fdiv (fadd a b) (Fin 2))"
  by (simp add: half_not_nan fadd_pos_not_nan)



lemma f64_of_real_finite:
  assumes "\<bar>x\<bar> \<le> 2 ^ 1002"
  shows "f64_of_real x = Fin (round_f64 x)"
proof -
  have "\<bar>round_f64 x\<bar> \<le> \<bar>x\<bar> + (\<bar>x\<bar> / 2 ^ 53 + 1 / 2 ^ 1075)"
    using round_f64_error[of x] by linarith
  also have "\<dots> \<le> 2 ^ 1002 + (2 ^ 1002 / 2 ^ 53 + 1 / 2 ^ 1075)"
    using assms by (intro add_mono divide_right_mono) simp_all
  also have "\<dots> \<le> max_f64" by (simp add: max_f64_def)
  finally show ?thesis by (simp add: f64_of_real_def)
qed

lemma f64_const_045: "round_f64 0.45 = 8106479329266893 / 2 ^ 54"
  by (subst round_f64_pos[where a = 0 and b = 54]) (simp_all add: round_half_even_def)

lemma f64_const_01: "round_f64 0.1 = 3602879701896397 / 2 ^ 55"
  by (subst round_f64_pos[where a = 0 and b = 56]) (simp_all add: round_half_even_def)

lemma green_value_bound:
  fixes r n b M :: real
  assumes "\<bar>r\<bar> \<le> M" "\<bar>n\<bar> \<le> M" "\<bar>b\<bar> \<le> M" "M \<le> 2 ^ 1000"
  shows "\<exists>g. fadd (fadd (fscale (round_f64 0.45) (Fin r)) (fscale (round_f64 0.1) (Fin n)))
                    (fscale (round_f64 0.45) (Fin b)) = Fin g \<and>
              g = round_f64 (round_f64 (round_f64 (round_f64 0.45 * r)
                                          + round_f64 (round_f64 0.1 * n))
                               + round_f64 (round_f64 0.45 * b)) \<and>
              \<bar>g - (0.45 * r + 0.1 * n + 0.45 * b)\<bar> \<le> M / 2 ^ 50 + 1 / 2 ^ 1072"
proof -
  define c45 :: real where "c45 = 8106479329266893 / 2 ^ 54"
  define c01 :: real where "c01 = 3602879701896397 / 2 ^ 55"
  define \<eta> :: real where "\<eta> = 1 / 2 ^ 1075"
  define p1 where "p1 = round_f64 (c45 * r)"
  define p2 where "p2 = round_f64 (c01 * n)"
  define p3 where "p3 = round_f64 (c45 * b)"
  define s1 where "s1 = round_f64 (p1 + p2)"
  define g where "g = round_f64 (s1 + p3)"
  have M0: "0 \<le> M" using assms(1) by linarith
  have eta: "0 < \<eta>" "\<eta> \<le> 1 / 2 ^ 1075" "\<eta> \<le> 1" by (simp_all add: \<eta>_def)
  have big: "(2::real) ^ 1000 + 2 ^ 1000 + 5 \<le> 2 ^ 1002" by simp
  have x1: "\<bar>c45 * r\<bar> \<le> M / 2" "\<bar>c45 * r - 0.45 * r\<bar> \<le> M / 2 ^ 56"
    using assms(1) by (simp_all add: c45_def abs_mult power2_eq_square)
  have x2: "\<bar>c01 * n\<bar> \<le> M / 8" "\<bar>c01 * n - 0.1 * n\<bar> \<le> M / 2 ^ 57"
    using assms(2) by (simp_all add: c01_def abs_mult power2_eq_square)
  have x3: "\<bar>c45 * b\<bar> \<le> M / 2" "\<bar>c45 * b - 0.45 * b\<bar> \<le> M / 2 ^ 56"
    using assms(3) by (simp_all add: c45_def abs_mult power2_eq_square)
  have r1: "\<bar>p1 - c45 * r\<bar> \<le> M / 2 ^ 54 + \<eta>"
    using round_f64_error[of "c45 * r"] x1(1) unfolding p1_def \<eta>_def by simp
  have r2: "\<bar>p2 - c01 * n\<bar> \<le> M / 2 ^ 56 + \<eta>"
    using round_f64_error[of "c01 * n"] x2(1) unfolding p2_def \<eta>_def by simp
  have r3: "\<bar>p3 - c45 * b\<bar> \<le> M / 2 ^ 54 + \<eta>"
    using round_f64_error[of "c45 * b"] x3(1) unfolding p3_def \<eta>_def by simp
  define m where "m = M / 2 ^ 57"
  have m0: "0 \<le> m" using M0 by (simp add: m_def)
  have u: "M = 144115188075855872 * m" "M / 2 = 72057594037927936 * m"
    "M / 8 = 18014398509481984 * m" "M / 2 ^ 50 = 128 * m" "M / 2 ^ 52 = 32 * m"
    "M / 2 ^ 53 = 16 * m" "M / 2 ^ 54 = 8 * m" "M / 2 ^ 56 = 2 * m" "M / 2 ^ 57 = m"
    by (simp_all add: m_def)
  have b12: "\<bar>p1 + p2\<bar> \<le> M + 2 * \<eta>"
    using r1 r2 x1(1) x2(1) m0 u(1) unfolding u(2-9) by linarith
  have "\<bar>p1 + p2\<bar> / 2 ^ 53 \<le> (M + 2 * \<eta>) / 2 ^ 53"
    using b12 by (simp add: divide_right_mono)
  also have "\<dots> \<le> M / 2 ^ 53 + \<eta>" using eta(1) by (simp add: add_divide_distrib)
  finally have r4: "\<bar>s1 - (p1 + p2)\<bar> \<le> M / 2 ^ 53 + 2 * \<eta>"
    using round_f64_error[of "p1 + p2"] unfolding s1_def \<eta>_def by linarith
  have b3: "\<bar>s1 + p3\<bar> \<le> 2 * M + 5 * \<eta>"
    using r4 b12 r3 x3(1) m0 u(1) unfolding u(2-9) by linarith
  have "\<bar>s1 + p3\<bar> / 2 ^ 53 \<le> (2 * M + 5 * \<eta>) / 2 ^ 53"
    using b3 by (simp add: divide_right_mono)
  also have "\<dots> \<le> M / 2 ^ 52 + \<eta>" using eta(1) by (simp add: add_divide_distrib)
  finally have r5: "\<bar>g - (s1 + p3)\<bar> \<le> M / 2 ^ 52 + 2 * \<eta>"
    using round_f64_error[of "s1 + p3"] unfolding g_def \<eta>_def by linarith
  have f1: "f64_of_real (c45 * r) = Fin p1" unfolding p1_def
    using x1(1) assms(4) M0 big by (intro f64_of_real_finite) linarith
  have f2: "f64_of_real (c01 * n) = Fin p2" unfolding p2_def
    using x2(1) assms(4) M0 big by (intro f64_of_real_finite) linarith
  have f3: "f64_of_real (c45 * b) = Fin p3" unfolding p3_def
    using x3(1) assms(4) M0 big by (intro f64_of_real_finite) linarith
  have f4: "f64_of_real (p1 + p2) = Fin s1" unfolding s1_def
    using b12 assms(4) eta(3) big by (intro f64_of_real_finite) linarith
  have f5: "f64_of_real (s1 + p3) = Fin g" unfolding g_def
    using b3 assms(4) eta(3) big by (intro f64_of_real_finite) linarith
  have val: "fadd (fadd (fscale (round_f64 0.45) (Fin r)) (fscale (round_f64 0.1) (Fin n)))
                    (fscale (round_f64 0.45) (Fin b)) = Fin g"
    unfolding f64_const_045 f64_const_01 c45_def[symmetric] c01_def[symmetric]
    by (simp add: f1 f2 f3 f4 f5)
  have "\<bar>g - (0.45 * r + 0.1 * n + 0.45 * b)\<bar> \<le> M / 2 ^ 50 + 7 * \<eta>"
    using r1 r2 r3 r4 r5 x1(2) x2(2) x3(2) m0 u(1) unfolding u(2-9) by linarith
  also have "\<dots> \<le> M / 2 ^ 50 + 1 / 2 ^ 1072" by (simp add: \<eta>_def)
  finally have err: "\<bar>g - (0.45 * r + 0.1 * n + 0.45 * b)\<bar> \<le> M / 2 ^ 50 + 1 / 2 ^ 1072" .
  have "g = round_f64 (round_f64 (round_f64 (round_f64 0.45 * r)
                                    + round_f64 (round_f64 0.1 * n))
                         + round_f64 (round_f64 0.45 * b))"
    unfolding g_def s1_def p1_def p2_def p3_def c45_def c01_def f64_const_045 f64_const_01 ..
  with val err show ?thesis by blast
qed

text \<open>The roundings that occur in the examples.\<close>

lemma f64_const_045_nf: "round_f64 (9 / 20) = 8106479329266893 / 18014398509481984"
  using f64_const_045 by simp

lemma f64_const_01_nf: "round_f64 (1 / 10) = 3602879701896397 / 36028797018963968"
  using f64_const_01 by simp

lemma f64_inst_0: "f64_of_real (- (18014398509481985 / 4503599627370496)) = Fin (- 4)"
  by (rule f64_of_real_negI[where a = 0 and b = 50]) (simp_all add: round_half_even_def max_f64_def)

lemma f64_inst_1: "f64_of_real (- (19815838360430183 / 9007199254740992)) = Fin (- (2476979795053773 / 1125899906842624))"
  by (rule f64_of_real_negI[where a = 0 and b = 51]) (simp_all add: round_half_even_def max_f64_def)

lemma f64_inst_2: "f64_of_real (- (8106479329266893 / 4503599627370496)) = Fin (- (8106479329266893 / 4503599627370496))"
  by (rule f64_of_real_negI[where a = 0 and b = 52]) (simp_all add: round_half_even_def max_f64_def)

lemma f64_inst_3: "f64_of_real (- 1) = Fin (- 1)"
  by (rule f64_of_real_negI[where a = 0 and b = 52]) (simp_all add: round_half_even_def max_f64_def)

lemma f64_inst_4: "f64_of_real (- (3602879701896397 / 9007199254740992)) = Fin (- (3602879701896397 / 9007199254740992))"
  by (rule f64_of_real_negI[where a = 0 and b = 54]) (simp_all add: round_half_even_def max_f64_def)

lemma f64_inst_5: "f64_of_real (8106479329266893 / 72057594037927936) = Fin (8106479329266893 / 72057594037927936)"
  by (rule f64_of_real_posI[where a = 0 and b = 56]) (simp_all add: round_half_even_def max_f64_def)

lemma f64_inst_6: "f64_of_real (1 / 4) = Fin (1 / 4)"
  by (rule f64_of_real_posI[where a = 0 and b = 54]) (simp_all add: round_half_even_def max_f64_def)

lemma f64_inst_7: "f64_of_real (3602879701896397 / 9007199254740992) = Fin (3602879701896397 / 9007199254740992)"
  by (rule f64_of_real_posI[where a = 0 and b = 54]) (simp_all add: round_half_even_def max_f64_def)

lemma f64_inst_8: "f64_of_real (8106479329266893 / 18014398509481984) = Fin (8106479329266893 / 18014398509481984)"
  by (rule f64_of_real_posI[where a = 0 and b = 54]) (simp_all add: round_half_even_def max_f64_def)

lemma f64_inst_9: "f64_of_real (1 / 2) = Fin (1 / 2)"
  by (rule f64_of_real_posI[where a = 0 and b = 53]) (simp_all add: round_half_even_def max_f64_def)

lemma f64_inst_10: "f64_of_real (3039929748475085 / 4503599627370496) = Fin (3039929748475085 / 4503599627370496)"
  by (rule f64_of_real_posI[where a = 0 and b = 53]) (simp_all add: round_half_even_def max_f64_def)

lemma f64_inst_11: "f64_of_real (8106479329266893 / 9007199254740992) = Fin (8106479329266893 / 9007199254740992)"
  by (rule f64_of_real_posI[where a = 0 and b = 53]) (simp_all add: round_half_even_def max_f64_def)

lemma f64_inst_12: "f64_of_real 1 = Fin 1"
  by (rule f64_of_real_posI[where a = 0 and b = 52]) (simp_all add: round_half_even_def max_f64_def)

lemma f64_inst_13: "f64_of_real (8106479329266893 / 4503599627370496) = Fin (8106479329266893 / 4503599627370496)"
  by (rule f64_of_real_posI[where a = 0 and b = 52]) (simp_all add: round_half_even_def max_f64_def)

lemma f64_inst_14: "f64_of_real (19815838360430183 / 9007199254740992) = Fin (2476979795053773 / 1125899906842624)"
  by (rule f64_of_real_posI[where a = 0 and b = 51]) (simp_all add: round_half_even_def max_f64_def)

lemma f64_inst_15: "f64_of_real (40532396646334467 / 18014398509481984) = Fin (9 / 4)"
  by (rule f64_of_real_posI[where a = 0 and b = 51]) (simp_all add: round_half_even_def max_f64_def)

lemma f64_inst_16: "f64_of_real (24319437987800679 / 9007199254740992) = Fin (3039929748475085 / 1125899906842624)"
  by (rule f64_of_real_posI[where a = 0 and b = 51]) (simp_all add: round_half_even_def max_f64_def)

lemma f64_inst_17: "f64_of_real 4 = Fin 4"
  by (rule f64_of_real_posI[where a = 0 and b = 50]) (simp_all add: round_half_even_def max_f64_def)

lemma f64_inst_18: "f64_of_real (18014398509481985 / 4503599627370496) = Fin 4"
  by (rule f64_of_real_posI[where a = 0 and b = 50]) (simp_all add: round_half_even_def max_f64_def)

lemma f64_inst_19: "f64_of_real (226981421219473011 / 36028797018963968) = Fin (1773292353277133 / 281474976710656)"
  by (rule f64_of_real_posI[where a = 0 and b = 50]) (simp_all add: round_half_even_def max_f64_def)

lemma f64_inst_20: "f64_of_real (510708197743814259 / 18014398509481984) = Fin (3989907794873549 / 140737488355328)"
  by (rule f64_of_real_posI[where a = 0 and b = 48]) (simp_all add: round_half_even_def max_f64_def)

lemma f64_inst_21: "f64_of_real (9753107943024231 / 281474976710656) = Fin (1219138492878029 / 35184372088832)"
  by (rule f64_of_real_posI[where a = 0 and b = 47]) (simp_all add: round_half_even_def max_f64_def)

lemma f64_inst_22: "f64_of_real (8866461766385665 / 140737488355328) = Fin (8866461766385665 / 140737488355328)"
  by (rule f64_of_real_posI[where a = 0 and b = 47]) (simp_all add: round_half_even_def max_f64_def)

lemma f64_inst_23: "f64_of_real 205 = Fin 205"
  by (rule f64_of_real_posI[where a = 0 and b = 45]) (simp_all add: round_half_even_def max_f64_def)

lemma f64_inst_24: "f64_of_real 410 = Fin 410"
  by (rule f64_of_real_posI[where a = 0 and b = 44]) (simp_all add: round_half_even_def max_f64_def)

lemmas f64_eval = f64_of_real_0 f64_const_045_nf f64_const_01_nf
  f64_inst_0 f64_inst_1 f64_inst_2 f64_inst_3 f64_inst_4 f64_inst_5
  f64_inst_6 f64_inst_7 f64_inst_8 f64_inst_9 f64_inst_10 f64_inst_11
  f64_inst_12 f64_inst_13 f64_inst_14 f64_inst_15 f64_inst_16 f64_inst_17
  f64_inst_18 f64_inst_19 f64_inst_20 f64_inst_21 f64_inst_22 f64_inst_23
  f64_inst_24

section \<open>Properties of the reductions\<close>

lemma idx_bound:
  fixes b y x :: nat
  assumes "b < nb" "y < n" "x < m"
  shows "(b * n + y) * m + x < nb * n * m"
proof -
  have "b * n + y < (b + 1) * n" using assms by simp
  also have "\<dots> \<le> nb * n" using assms by (intro mult_le_mono1) simp
  finally have "b * n + y + 1 \<le> nb * n" by simp
  then have "(b * n + y + 1) * m \<le> nb * n * m" by (rule mult_le_mono1)
  moreover have "(b * n + y) * m + x < (b * n + y + 1) * m" using assms by simp
  ultimately show ?thesis by linarith
qed

lemma fgt_not_nan: "fgt v c \<Longrightarrow> \<not> isnan v"
  by (cases v) simp_all


lemma median1d_not_nan:
  assumes "ys \<noteq> []" "\<forall>v\<in>set ys. fgt v 0"
  shows "\<not> isnan (median1d ys)"
proof -
  let ?s = "sort ys"
  let ?n = "length ?s"
  have n: "0 < ?n" using assms by simp
  have mem: "\<And>i. i < ?n \<Longrightarrow> fgt (?s ! i) 0"
    using assms(2) by (metis nth_mem set_sort)
  have h: "?n div 2 < ?n" using n by simp
  show ?thesis
  proof (cases "?n mod 2 = 1")
    case True
    then show ?thesis using mem[OF h] by (simp add: median1d_def Let_def fgt_not_nan)
  next
    case False
    have "?n div 2 - 1 < ?n" using n by arith
    then show ?thesis using False mem[OF h] mem[of "?n div 2 - 1"]
      by (simp add: median1d_def Let_def mean_not_nan)
  qed
qed

lemma nanmedian1d_isnan_iff:
  assumes "\<forall>u\<in>set xs. isnan u \<or> fgt u 0"
  shows "isnan (nanmedian1d xs) \<longleftrightarrow> (\<forall>u\<in>set xs. isnan u)"
proof (cases "filter (\<lambda>v. \<not> isnan v) xs = []")
  case True
  then show ?thesis by (simp add: nanmedian1d_def filter_empty_conv)
next
  case False
  have "\<forall>v\<in>set (filter (\<lambda>v. \<not> isnan v) xs). fgt v 0" using assms by auto
  from median1d_not_nan[OF False this] have "\<not> isnan (nanmedian1d xs)"
    using False by (simp add: nanmedian1d_def)
  moreover have "\<not> (\<forall>u\<in>set xs. isnan u)" using False by (simp add: filter_empty_conv)
  ultimately show ?thesis by simp
qed

lemma stack_idx_bound:
  fixes t j :: nat
  assumes "t < nt" "j < fs"
  shows "t * fs + j < nt * fs"
proof -
  have "t * fs + j < (t + 1) * fs" using assms by simp
  also have "\<dots> \<le> nt * fs" using assms by (intro mult_le_mono1) simp
  finally show ?thesis .
qed





lemma upt_2: "[0..<2] = [0, 1]"
  by code_simp

lemma upt_5: "[0..<5] = [0, 1, 2, 3, 4]"
  by code_simp

lemma upt_6: "[0..<6] = [0, 1, 2, 3, 4, 5]"
  by code_simp

lemma median1d_example_scene: "median1d [Fin 200, Fin 210, Fin 195, Fin 400] = Fin 205"
proof -
  have s: "sort [Fin 200, Fin 210, Fin 195, Fin 400] = [Fin 195, Fin 200, Fin 210, Fin 400]"
    by code_simp
  show ?thesis unfolding median1d_def s by (simp add: f64_eval)
qed

lemma median1d_example_unflagged:
  "median1d [Fin 200, Fin 5, Fin 210, Fin 195, Fin 400] = Fin 200"
proof -
  have s: "sort [Fin 200, Fin 5, Fin 210, Fin 195, Fin 400]
             = [Fin 5, Fin 195, Fin 200, Fin 210, Fin 400]"
    by code_simp
  show ?thesis unfolding median1d_def s by simp
qed



section \<open>Properties of the composite\<close>

lemma at3_median:
  "b < length (band d) \<Longrightarrow> y < ny d \<Longrightarrow> x < nx d \<Longrightarrow>
   at3 (median d) b y x = nanmedian1d (series d b y x)"
  by (simp add: at3_def median_def series_def at4_def frame_size_def idx_bound)

lemma frame_size_data: "wf_stackstac r \<Longrightarrow> frame_size (data r) = frame_size r"
  by (simp add: frame_size_def data_def wf_stackstac_def)

lemma at4_data:
  assumes "wf_stackstac r" "t < length (time r)"
    and "b < length (band r)" "y < ny r" "x < nx r"
  shows "at4 (data r) t b y x = xr_where (\<lambda>x. fgt x 0) NaN (at4 r t b y x)"
proof -
  let ?j = "(b * ny r + y) * nx r + x"
  have "?j < frame_size r"
    unfolding frame_size_def using assms(3-5) by (rule idx_bound)
  with assms(2) have "t * frame_size r + ?j < length (time r) * frame_size r"
    by (rule stack_idx_bound)
  then have "t * frame_size r + ?j < length (vals r)"
    using assms(1) by (simp add: wf_stackstac_def wf_stack_def)
  then show ?thesis
    unfolding at4_def frame_size_data[OF assms(1)] by (simp add: data_def)
qed

lemma series_data:
  assumes "wf_stackstac r" "b < length (band r)" "y < ny r" "x < nx r"
  shows "series (data r) b y x = map (xr_where (\<lambda>x. fgt x 0) NaN) (series r b y x)"
proof -
  have "time (data r) = time r" by (simp add: data_def)
  moreover have "\<forall>t\<in>set [0..<length (time r)].
      at4 (data r) t b y x = xr_where (\<lambda>x. fgt x 0) NaN (at4 r t b y x)"
    using assms by (simp add: at4_data)
  ultimately show ?thesis by (simp add: series_def)
qed

lemma filter_valid_where:
  "filter (\<lambda>v. \<not> isnan v) (map (xr_where (\<lambda>x. fgt x 0) NaN) xs) = filter (\<lambda>v. fgt v 0) xs"
  by (induction xs) (auto simp: xr_where_def fgt_not_nan)

lemma at3_median_data:
  assumes "wf_stackstac r" "b < length (band r)" "y < ny r" "x < nx r"
  shows "at3 (median (data r)) b y x = nanmedian1d (series (data r) b y x)"
proof -
  have "b < length (band (data r))" "y < ny (data r)" "x < nx (data r)"
    using assms by (simp_all add: data_def wf_stackstac_def)
  then show ?thesis by (rule at3_median)
qed

section \<open>The claims about the composite\<close>

text \<open>
  Claim C1. For a well-formed stack and any pixel-band, the composite
  \<open>median (data r)\<close> is NaN (no-data) at that pixel-band exactly when none of the
  frames has a valid sample there: every sample of \<open>data r\<close> is NaN, that is, no
  sample of the array read is greater than zero. So a pixel-band with a valid
  sample is never no-data, and one without valid samples gives the marker NaN, not
  zero and not an error.
\<close>

theorem composite_nodata_iff_no_valid_sample:
  assumes "wf_stackstac r" "b < length (band r)" "y < ny r" "x < nx r"
  shows "(isnan (at3 (median (data r)) b y x) \<longleftrightarrow>
           (\<forall>t<length (time r). isnan (at4 (data r) t b y x))) \<and>
         (isnan (at3 (median (data r)) b y x) \<longleftrightarrow>
           (\<forall>t<length (time r). \<not> fgt (at4 r t b y x) 0))"
proof -
  let ?w = "xr_where (\<lambda>x. fgt x 0) NaN"
  have ser: "series (data r) b y x = map ?w (series r b y x)"
    using assms by (rule series_data)
  have "\<forall>u\<in>set (series (data r) b y x). isnan u \<or> fgt u 0"
    unfolding ser by (auto simp: xr_where_def)
  then have "isnan (nanmedian1d (series (data r) b y x)) \<longleftrightarrow>
      (\<forall>u\<in>set (series (data r) b y x). isnan u)"
    by (rule nanmedian1d_isnan_iff)
  then have 1: "isnan (at3 (median (data r)) b y x) \<longleftrightarrow>
      (\<forall>u\<in>set (series (data r) b y x). isnan u)"
    using assms by (simp add: at3_median_data)
  have t: "time (data r) = time r" by (simp add: data_def)
  have 2: "(\<forall>u\<in>set (series (data r) b y x). isnan u) \<longleftrightarrow>
      (\<forall>t<length (time r). isnan (at4 (data r) t b y x))"
    by (auto simp: series_def t)
  have w: "\<And>u. isnan (?w u) \<longleftrightarrow> \<not> fgt u 0"
    by (simp add: xr_where_def fgt_not_nan)
  have "(\<forall>u\<in>set (series (data r) b y x). isnan u) \<longleftrightarrow>
      (\<forall>u\<in>set (series r b y x). \<not> fgt u 0)"
    unfolding ser by (simp add: w)
  also have "\<dots> \<longleftrightarrow> (\<forall>t<length (time r). \<not> fgt (at4 r t b y x) 0)"
    by (auto simp: series_def)
  finally have 3: "(\<forall>u\<in>set (series (data r) b y x). isnan u) \<longleftrightarrow>
      (\<forall>t<length (time r). \<not> fgt (at4 r t b y x) 0)" .
  show ?thesis using 1 2 3 by simp
qed

text \<open>
  The scene of the specification meets the hypotheses of C1 and has a valid sample,
  so its composite is not no-data.
\<close>

theorem composite_nodata_iff_no_valid_sample_witness:
  "wf_stackstac example_scene \<and> 0 < length (band example_scene) \<and>
   0 < ny example_scene \<and> 0 < nx example_scene \<and>
   \<not> isnan (at3 (median (data example_scene)) 0 0 0)"
proof -
  have h: "wf_stackstac example_scene" "0 < length (band example_scene)"
    "0 < ny example_scene" "0 < nx example_scene"
    by (simp_all add: example_scene_def wf_stackstac_def wf_stack_def frame_size_def)
  have "fgt (at4 example_scene 0 0 0 0) 0"
    by (simp add: example_scene_def at4_def)
  moreover have "(0::nat) < length (time example_scene)"
    by (simp add: example_scene_def)
  ultimately have "\<not> (\<forall>t<length (time example_scene). \<not> fgt (at4 example_scene t 0 0 0) 0)"
    by blast
  with composite_nodata_iff_no_valid_sample[OF h] h show ?thesis by blast
qed




text \<open>
  Claim C3, as stated, fails: for the series 200, 5 (flagged), 210, 195, 400 the
  composite is not 202.5, whether the flagged sample reaches the stack as NaN or
  is left in place as 5.
\<close>

theorem example_scene_median_not_202_5:
  "at3 (median (data example_scene)) 0 0 0 \<noteq> Fin 202.5 \<and>
   at3 (median (data example_scene_unflagged)) 0 0 0 \<noteq> Fin 202.5"
proof -
  have w: "wf_stackstac example_scene" "wf_stackstac example_scene_unflagged"
    by (simp_all add: example_scene_unflagged_def example_scene_def wf_stackstac_def
          wf_stack_def frame_size_def)
  have s1: "series (data example_scene) 0 0 0 = [Fin 200, NaN, Fin 210, Fin 195, Fin 400]"
    by (simp add: series_def at4_def data_def example_scene_def frame_size_def upt_5
          xr_where_def)
  have s2: "series (data example_scene_unflagged) 0 0 0
              = [Fin 200, Fin 5, Fin 210, Fin 195, Fin 400]"
    by (simp add: series_def at4_def data_def example_scene_unflagged_def example_scene_def
          frame_size_def upt_5 xr_where_def)
  have "at3 (median (data example_scene)) 0 0 0 = nanmedian1d (series (data example_scene) 0 0 0)"
    by (rule at3_median_data[OF w(1)]) (simp_all add: example_scene_def)
  then have 1: "at3 (median (data example_scene)) 0 0 0 = Fin 205"
    unfolding s1 by (simp add: nanmedian1d_def median1d_example_scene)
  have "at3 (median (data example_scene_unflagged)) 0 0 0
          = nanmedian1d (series (data example_scene_unflagged) 0 0 0)"
    by (rule at3_median_data[OF w(2)])
       (simp_all add: example_scene_unflagged_def example_scene_def)
  then have 2: "at3 (median (data example_scene_unflagged)) 0 0 0 = Fin 200"
    unfolding s2 by (simp add: nanmedian1d_def median1d_example_unflagged)
  show ?thesis unfolding 1 2 by simp
qed

text \<open>
  Claim C3, amended. For that series of band \<open>red\<close> at pixel (0, 0) the flagged
  sample is discarded and the composite is the median of 200, 210, 195 and 400,
  which is 205.
\<close>

theorem example_scene_median:
  "band (median (data example_scene)) = [''red''] \<and>
   series (data example_scene) 0 0 0 = [Fin 200, NaN, Fin 210, Fin 195, Fin 400] \<and>
   at3 (median (data example_scene)) 0 0 0 = median1d [Fin 200, Fin 210, Fin 195, Fin 400] \<and>
   median1d [Fin 200, Fin 210, Fin 195, Fin 400] = Fin 205"
proof -
  have w: "wf_stackstac example_scene"
    by (simp add: example_scene_def wf_stackstac_def wf_stack_def frame_size_def)
  have b: "band (median (data example_scene)) = [''red'']"
    by (simp add: median_def data_def example_scene_def)
  have s: "series (data example_scene) 0 0 0 = [Fin 200, NaN, Fin 210, Fin 195, Fin 400]"
    by (simp add: series_def at4_def data_def example_scene_def frame_size_def upt_5
          xr_where_def)
  have "at3 (median (data example_scene)) 0 0 0 = nanmedian1d (series (data example_scene) 0 0 0)"
    by (rule at3_median_data[OF w]) (simp_all add: example_scene_def)
  then have m: "at3 (median (data example_scene)) 0 0 0
                  = median1d [Fin 200, Fin 210, Fin 195, Fin 400]"
    unfolding s by (simp add: nanmedian1d_def)
  show ?thesis using b s m median1d_example_scene by simp
qed

text \<open>
  Claim C4. The composite of any stack has the band labels, the number of rows and
  the number of columns of the stack, and its values fill exactly one frame of that
  shape: the result is a \<open>Raster\<close>, which has no time axis.
\<close>

theorem composite_shape:
  "band (median d) = band d \<and> ny (median d) = ny d \<and> nx (median d) = nx d \<and>
   length (vals (median d)) = length (band d) * ny d * nx d \<and> wf_raster (median d)"
  by (simp add: median_def wf_raster_def frame_size_def)

text \<open>
  Claim C5. In the composite \<open>median (data r)\<close> of a well-formed array, a sample
  that is not greater than zero (a finite value \<open>\<le> 0\<close>, or NaN for a sample masked
  by the reader) is turned into NaN before the reduction, and the value at a
  pixel-band is the median of the samples greater than zero alone (NaN when there
  is none), so the discarded samples do not contribute to it.
\<close>

theorem nodata_policy:
  assumes "wf_stackstac r" "b < length (band r)" "y < ny r" "x < nx r"
  shows "(\<forall>t<length (time r). \<not> fgt (at4 r t b y x) 0 \<longrightarrow> at4 (data r) t b y x = NaN) \<and>
         (\<forall>a. a \<le> 0 \<longrightarrow> \<not> fgt (Fin a) 0) \<and> \<not> fgt NaN 0 \<and>
         at3 (median (data r)) b y x =
           (let valid = filter (\<lambda>v. fgt v 0) (series r b y x)
            in if valid = [] then NaN else median1d valid)"
proof -
  have 1: "\<forall>t<length (time r). \<not> fgt (at4 r t b y x) 0 \<longrightarrow> at4 (data r) t b y x = NaN"
    using assms by (simp add: at4_data xr_where_def)
  have "at3 (median (data r)) b y x = nanmedian1d (series (data r) b y x)"
    using assms by (rule at3_median_data)
  also have "\<dots> = nanmedian1d (map (xr_where (\<lambda>x. fgt x 0) NaN) (series r b y x))"
    using assms by (simp add: series_data)
  also have "\<dots> = (let valid = filter (\<lambda>v. fgt v 0) (series r b y x)
            in if valid = [] then NaN else median1d valid)"
    unfolding nanmedian1d_def filter_valid_where ..
  finally show ?thesis using 1 by simp
qed

text \<open>
  The pixel with a zero, a negative and a masked sample meets the hypotheses of C5;
  its composite is the median of the two remaining samples.
\<close>

theorem nodata_policy_witness:
  "wf_stackstac example_nodata \<and> 0 < length (band example_nodata) \<and>
   0 < ny example_nodata \<and> 0 < nx example_nodata \<and>
   at4 (data example_nodata) 0 0 0 0 = NaN \<and>
   at4 (data example_nodata) 3 0 0 0 = NaN \<and>
   at3 (median (data example_nodata)) 0 0 0 = median1d [Fin 300, Fin 500]"
proof -
  have h: "wf_stackstac example_nodata" "0 < length (band example_nodata)"
    "0 < ny example_nodata" "0 < nx example_nodata"
    by (simp_all add: example_nodata_def wf_stackstac_def wf_stack_def frame_size_def)
  have s: "filter (\<lambda>v. fgt v 0) (series example_nodata 0 0 0) = [Fin 300, Fin 500]"
    by code_simp
  have t: "length (time example_nodata) = 5" "\<not> fgt (at4 example_nodata 0 0 0 0) 0"
    "\<not> fgt (at4 example_nodata 3 0 0 0) 0"
    by (simp_all add: example_nodata_def at4_def frame_size_def)
  from nodata_policy[OF h] h t show ?thesis unfolding s by simp
qed



section \<open>The claims about the rendering\<close>

lemma length_concat_planes:
  "length (concat (map (\<lambda>t. plane d t k) [0..<n])) = n * (ny d * nx d)"
  by (induction n) (simp_all add: plane_def)

lemma length_sel_band:
  "sel_band d l = Inr R \<Longrightarrow> length (vals R) = length (time d) * (ny d * nx d)"
  by (auto simp: sel_band_def length_concat_planes split: option.splits)

lemma weighted_mean_lower:
  fixes r n b m :: real
  shows "m \<le> r \<Longrightarrow> m \<le> n \<Longrightarrow> m \<le> b \<Longrightarrow> m \<le> 0.45 * r + 0.1 * n + 0.45 * b"
  by (simp add: power2_eq_square)

lemma weighted_mean_upper:
  fixes r n b m :: real
  shows "r \<le> m \<Longrightarrow> n \<le> m \<Longrightarrow> b \<le> m \<Longrightarrow> 0.45 * r + 0.1 * n + 0.45 * b \<le> m"
  by (simp add: power2_eq_square)

lemma example_goes_63_green:
  "green example_goes_63 =
     Inr (example_goes_63\<lparr> band := [''green''], vals := [Fin (8866461766385665 / 2 ^ 47)] \<rparr>)"
  by (simp add: green_def sel_band_def example_goes_63_def plane_def frame_size_def f64_eval)

text \<open>
  Claim C10, as stated, fails: in float64 the rounded weights do not act as weights
  of sum one. For \<open>red = nir09 = blue = 63\<close> the simulated green value is
  \<open>63 + 1 / 2 ^ 47\<close>, which Python prints as \<open>63.00000000000001\<close>, above the greatest
  of the three band values.
\<close>

theorem green_above_bands:
  "vals example_goes_63 = [Fin 63, Fin 63, Fin 63] \<and>
   green example_goes_63 =
     Inr (example_goes_63\<lparr> band := [''green''], vals := [Fin (8866461766385665 / 2 ^ 47)] \<rparr>) \<and>
   max 63 (max 63 63) < (8866461766385665 / 2 ^ 47 :: real)"
  using example_goes_63_green by (simp add: example_goes_63_def)

text \<open>
  Claim C10, amended. Where the bands \<open>red\<close>, \<open>nir09\<close> and \<open>blue\<close> exist and have the
  finite values \<open>r\<close>, \<open>n\<close> and \<open>b\<close> at a position, of magnitude at most
  \<open>M \<le> 2 ^ 1000\<close>, the simulated green band has a finite value there, the
  expression \<open>0.45 * r + 0.1 * n + 0.45 * b\<close> with every operation rounded to float64.
  It differs from the exact value of that expression by at most the rounding error
  \<open>M / 2 ^ 50 + 1 / 2 ^ 1072\<close>, and so lies between the least and the greatest of the
  three values up to that error.
\<close>

theorem green_within_rounding_of_bands:
  assumes "sel_band d ''red'' = Inr R" "sel_band d ''nir09'' = Inr N"
    and "sel_band d ''blue'' = Inr B"
    and "i < length (time d) * (ny d * nx d)"
    and "vals R ! i = Fin r" "vals N ! i = Fin n" "vals B ! i = Fin b"
    and "\<bar>r\<bar> \<le> M" "\<bar>n\<bar> \<le> M" "\<bar>b\<bar> \<le> M" "M \<le> 2 ^ 1000"
  shows "\<exists>G g. green d = Inr G \<and> vals G ! i = Fin g \<and>
           g = round_f64 (round_f64 (round_f64 (round_f64 0.45 * r)
                                       + round_f64 (round_f64 0.1 * n))
                            + round_f64 (round_f64 0.45 * b)) \<and>
           \<bar>g - (0.45 * r + 0.1 * n + 0.45 * b)\<bar> \<le> M / 2 ^ 50 + 1 / 2 ^ 1072 \<and>
           min r (min n b) - (M / 2 ^ 50 + 1 / 2 ^ 1072) \<le> g \<and>
           g \<le> max r (max n b) + (M / 2 ^ 50 + 1 / 2 ^ 1072)"
proof -
  let ?f = "\<lambda>(vr, vn, vb). fadd (fadd (fscale (round_f64 0.45) vr) (fscale (round_f64 0.1) vn))
                              (fscale (round_f64 0.45) vb)"
  let ?G = "\<lparr> band = [''green''], ny = ny d, nx = nx d,
              vals = map ?f (zip (vals R) (zip (vals N) (vals B))), time = time d \<rparr>"
  let ?E = "0.45 * r + 0.1 * n + 0.45 * b"
  let ?\<delta> = "M / 2 ^ 50 + 1 / 2 ^ 1072"
  have G: "green d = Inr ?G" using assms(1-3) by (simp add: green_def)
  have len: "i < length (vals R)" "i < length (vals N)" "i < length (vals B)"
    using assms(1-4) by (simp_all add: length_sel_band)
  then have "vals ?G ! i = ?f (vals R ! i, vals N ! i, vals B ! i)" by simp
  then have v: "vals ?G ! i = fadd (fadd (fscale (round_f64 0.45) (Fin r))
                                        (fscale (round_f64 0.1) (Fin n)))
                                  (fscale (round_f64 0.45) (Fin b))"
    using assms(5-7) by simp
  from green_value_bound[OF assms(8-11)] obtain g where
    g: "fadd (fadd (fscale (round_f64 0.45) (Fin r)) (fscale (round_f64 0.1) (Fin n)))
             (fscale (round_f64 0.45) (Fin b)) = Fin g"
       "\<bar>g - ?E\<bar> \<le> ?\<delta>"
       "g = round_f64 (round_f64 (round_f64 (round_f64 0.45 * r)
                                    + round_f64 (round_f64 0.1 * n))
                         + round_f64 (round_f64 0.45 * b))"
    by blast
  have lo: "min r (min n b) \<le> ?E" by (rule weighted_mean_lower) simp_all
  have hi: "?E \<le> max r (max n b)" by (rule weighted_mean_upper) simp_all
  have "min r (min n b) - ?\<delta> \<le> g" "g \<le> max r (max n b) + ?\<delta>"
    using g(2) lo hi by linarith+
  with G v g show ?thesis by (metis (no_types, lifting))
qed

text \<open>The first pixel of the example frame meets the hypotheses of C10 with \<open>M = 4\<close>.\<close>

theorem green_within_rounding_of_bands_witness:
  "sel_band example_goes ''red'' = Inr (example_goes\<lparr> band := [''red''], vals := [Fin 4, Fin 0] \<rparr>) \<and>
   sel_band example_goes ''nir09'' = Inr (example_goes\<lparr> band := [''nir09''], vals := [Fin 0, Fin 0] \<rparr>) \<and>
   sel_band example_goes ''blue'' = Inr (example_goes\<lparr> band := [''blue''], vals := [Fin 2, Fin 1] \<rparr>) \<and>
   0 < length (time example_goes) * (ny example_goes * nx example_goes) \<and>
   \<bar>4\<bar> \<le> (4::real) \<and> \<bar>0\<bar> \<le> (4::real) \<and> \<bar>2\<bar> \<le> (4::real) \<and> (4::real) \<le> 2 ^ 1000 \<and>
   (\<exists>G g. green example_goes = Inr G \<and> vals G ! 0 = Fin g \<and>
      \<bar>g - (0.45 * 4 + 0.1 * 0 + 0.45 * 2)\<bar> \<le> 4 / 2 ^ 50 + 1 / 2 ^ 1072 \<and>
      g \<le> 4 + (4 / 2 ^ 50 + 1 / 2 ^ 1072))"
proof -
  have h: "sel_band example_goes ''red'' = Inr (example_goes\<lparr> band := [''red''], vals := [Fin 4, Fin 0] \<rparr>)"
    "sel_band example_goes ''nir09'' = Inr (example_goes\<lparr> band := [''nir09''], vals := [Fin 0, Fin 0] \<rparr>)"
    "sel_band example_goes ''blue'' = Inr (example_goes\<lparr> band := [''blue''], vals := [Fin 2, Fin 1] \<rparr>)"
    "0 < length (time example_goes) * (ny example_goes * nx example_goes)"
    by code_simp+
  have v: "vals (example_goes\<lparr> band := [''red''], vals := [Fin 4, Fin 0] \<rparr>) ! 0 = Fin 4"
    "vals (example_goes\<lparr> band := [''nir09''], vals := [Fin 0, Fin 0] \<rparr>) ! 0 = Fin 0"
    "vals (example_goes\<lparr> band := [''blue''], vals := [Fin 2, Fin 1] \<rparr>) ! 0 = Fin 2"
    by simp_all
  have m: "\<bar>4\<bar> \<le> (4::real)" "\<bar>0\<bar> \<le> (4::real)" "\<bar>2\<bar> \<le> (4::real)" "(4::real) \<le> 2 ^ 1000"
    by simp_all
  from green_within_rounding_of_bands[OF h v m] obtain G g where
    "green example_goes = Inr G" "vals G ! 0 = Fin g"
    "\<bar>g - (0.45 * 4 + 0.1 * 0 + 0.45 * 2)\<bar> \<le> 4 / 2 ^ 50 + 1 / 2 ^ 1072"
    "g \<le> max 4 (max 0 2) + (4 / 2 ^ 50 + 1 / 2 ^ 1072)"
    by blast
  then have "\<exists>G g. green example_goes = Inr G \<and> vals G ! 0 = Fin g \<and>
      \<bar>g - (0.45 * 4 + 0.1 * 0 + 0.45 * 2)\<bar> \<le> 4 / 2 ^ 50 + 1 / 2 ^ 1072 \<and>
      g \<le> 4 + (4 / 2 ^ 50 + 1 / 2 ^ 1072)"
    by auto
  with h m show ?thesis by blast
qed


lemma clamp01_range: "\<exists>c. clamp01 u = Fin c \<and> 0 \<le> c \<and> c \<le> 1"
  by (cases u) (simp_all add: clamp01_def xr_where_def)

lemma clamp01_pos: "0 < p \<Longrightarrow> clamp01 (Fin p) \<noteq> Fin 0"
  by (simp add: clamp01_def xr_where_def)

lemma rgb_Inr:
  assumes "rgb d = Inr out"
  shows "\<exists>c n. rgb_select d = Inr c \<and> rgb_normalize c = Inr n \<and> out = rgb_clamp (rgb_gamma n)"
  using assms by (auto simp: rgb_def split: sum.splits)

lemma those_length: "those xs = Some ys \<Longrightarrow> length ys = length xs"
  by (induction xs arbitrary: ys) (auto split: option.splits)

lemma length_concat_frames:
  "length (concat (map (\<lambda>t. concat (map (plane d t) ks)) [0..<n]))
     = n * (length ks * (ny d * nx d))"
proof -
  have "length (concat (map (plane d t) ks)) = length ks * (ny d * nx d)" for t
    by (induction ks) (simp_all add: plane_def)
  then show ?thesis by (induction n) simp_all
qed

lemma rgb_select_shape:
  assumes "rgb_select d = Inr c"
  shows "band c = [''red'', ''green'', ''blue'']"
    and "length (vals c) = length (time c) * frame_size c"
proof -
  from assms obtain g ks where
    ks: "those (map (\<lambda>l. index_of l (band (concat_band d g))) [''red'', ''green'', ''blue''])
           = Some ks"
    and c: "c = \<lparr> band = [''red'', ''green'', ''blue''], ny = ny (concat_band d g),
                  nx = nx (concat_band d g),
                  vals = concat (map (\<lambda>t. concat (map (plane (concat_band d g) t) ks))
                                     [0..<length (time (concat_band d g))]),
                  time = time (concat_band d g) \<rparr>"
    by (auto simp: rgb_select_def sel_bands_def split: sum.splits option.splits)
  show "band c = [''red'', ''green'', ''blue'']" by (simp add: c)
  have "length ks = 3" using those_length[OF ks] by simp
  then show "length (vals c) = length (time c) * frame_size c"
    by (simp add: c length_concat_frames frame_size_def)
qed

lemma rgb_value_at:
  assumes "rgb_select d = Inr c" "i < length (vals c)"
  shows "\<exists>out. rgb d = Inr out \<and> length (vals out) = length (vals c) \<and>
           vals out ! i =
             clamp01 (fpow (fdiv (vals c ! i) (nanmax1d (frame c (i div frame_size c))))
                           (1 / \<gamma>))"
proof -
  let ?n = "c\<lparr> vals := map (\<lambda>i. fdiv (vals c ! i) (nanmax1d (frame c (i div frame_size c))))
                              [0..<length (vals c)] \<rparr>"
  have "frame_size c \<noteq> 0"
  proof
    assume "frame_size c = 0"
    then have "length (vals c) = 0" using rgb_select_shape(2)[OF assms(1)] by simp
    then show False using assms(2) by simp
  qed
  then have n: "rgb_normalize c = Inr ?n" by (simp add: rgb_normalize_def)
  have r: "rgb d = Inr (rgb_clamp (rgb_gamma ?n))"
    by (simp add: rgb_def assms(1) n)
  have "length (vals (rgb_clamp (rgb_gamma ?n))) = length (vals c)"
    by (simp add: rgb_clamp_def rgb_gamma_def)
  moreover have "vals (rgb_clamp (rgb_gamma ?n)) ! i =
      clamp01 (fpow (fdiv (vals c ! i) (nanmax1d (frame c (i div frame_size c)))) (1 / \<gamma>))"
    using assms(2) by (simp add: rgb_clamp_def rgb_gamma_def)
  ultimately show ?thesis using r by simp
qed

lemma example_goes_green:
  "green example_goes =
     Inr (example_goes\<lparr> band := [''green''],
            vals := [Fin (3039929748475085 / 2 ^ 50), Fin (8106479329266893 / 2 ^ 54)] \<rparr>)"
  by (simp add: green_def sel_band_def example_goes_def plane_def frame_size_def upt_2
        f64_eval)

lemma example_goes_select: "rgb_select example_goes = Inr example_goes_selected"
  unfolding rgb_select_def example_goes_green
  by (simp add: sel_bands_def concat_band_def example_goes_def example_goes_selected_def
        plane_def frame_size_def upt_2)

lemma example_goes_max:
  "nanmax1d (frame example_goes_selected 0) = Fin 4"
  by (simp add: nanmax1d_def frame_def frame_size_def example_goes_selected_def max_def)

lemma example_goes_spec:
  "vals (spec_minmax_render example_goes_selected) = [Fin 1, Fin 0, Fin 1, Fin 0, Fin 1, Fin 0]"
  by (simp add: spec_minmax_render_def Let_def example_goes_selected_def frame_size_def
        plane_def upt_2 upt_6 nanmin1d_def nanmax1d_def min_def max_def fsub_def
        clamp01_def xr_where_def f64_eval)

text \<open>
  Claim C7, as stated, fails. On the example frame the bands selected are
  red = (4, 0), green = (2.7, 0.45) and blue = (2, 1), the green values rounded to
  float64. Normalising each channel by its own minimum and maximum gives 1 and 0
  in every channel, but \<open>rgb\<close> divides all of them by 4, the maximum over the three
  channels, so that its second green value is positive and not 0.
\<close>

theorem rgb_is_not_per_channel_minmax:
  "rgb_select example_goes = Inr example_goes_selected \<and>
   vals (spec_minmax_render example_goes_selected) = [Fin 1, Fin 0, Fin 1, Fin 0, Fin 1, Fin 0] \<and>
   rgb example_goes \<noteq> Inr (spec_minmax_render example_goes_selected)"
proof -
  have l: "3 < length (vals example_goes_selected)"
    by (simp add: example_goes_selected_def)
  from rgb_value_at[OF example_goes_select l] obtain out where
    out: "rgb example_goes = Inr out"
      "vals out ! 3 = clamp01 (fpow (fdiv (vals example_goes_selected ! 3)
          (nanmax1d (frame example_goes_selected (3 div frame_size example_goes_selected))))
          (1 / \<gamma>))"
    by blast
  have "3 div frame_size example_goes_selected = 0"
    by (simp add: frame_size_def example_goes_selected_def)
  moreover have "vals example_goes_selected ! 3 = Fin (8106479329266893 / 18014398509481984)"
    by (simp add: example_goes_selected_def)
  moreover have "fdiv (Fin (8106479329266893 / 18014398509481984)) (Fin 4)
                   = Fin (8106479329266893 / 72057594037927936)"
    by (simp add: f64_eval)
  ultimately have "vals out ! 3
      = clamp01 (Fin ((8106479329266893 / 72057594037927936) powr (1 / \<gamma>)))"
    using out(2) example_goes_max by simp
  moreover have "clamp01 (Fin ((8106479329266893 / 72057594037927936) powr (1 / \<gamma>))) \<noteq> Fin 0"
    by (rule clamp01_pos) simp
  moreover have "vals (spec_minmax_render example_goes_selected) ! 3 = Fin 0"
    by (simp add: example_goes_spec)
  ultimately have "out \<noteq> spec_minmax_render example_goes_selected"
    by metis
  with out(1) example_goes_select example_goes_spec show ?thesis by simp
qed

text \<open>
  Claim C7, amended. \<open>rgb\<close> selects the bands red, green and blue, divides every
  value by the maximum over all three bands and all pixels of the same time step
  (no minimum is subtracted and the constant is shared by the channels), raises
  the quotient to \<open>1 / \<gamma>\<close> with \<open>\<gamma> = 2.2\<close>, and clamps the result to \<open>[0, 1]\<close>.
\<close>

theorem rgb_divides_by_frame_maximum:
  assumes "rgb_select d = Inr c" "i < length (vals c)"
  shows "\<exists>out. rgb d = Inr out \<and> length (vals out) = length (vals c) \<and>
           vals out ! i =
             clamp01 (fpow (fdiv (vals c ! i) (nanmax1d (frame c (i div frame_size c))))
                           (1 / \<gamma>)) \<and>
           \<gamma> = 2.2 \<and> band c = [''red'', ''green'', ''blue'']"
  using rgb_value_at[OF assms] rgb_select_shape(1)[OF assms(1)] by (simp add: \<gamma>_def)

text \<open>The blue value 2 of the example frame is divided by 4, the maximum of the frame.\<close>

theorem rgb_divides_by_frame_maximum_witness:
  "rgb_select example_goes = Inr example_goes_selected \<and>
   4 < length (vals example_goes_selected) \<and>
   nanmax1d (frame example_goes_selected (4 div frame_size example_goes_selected)) = Fin 4 \<and>
   (\<exists>out. rgb example_goes = Inr out \<and>
      vals out ! 4 = clamp01 (fpow (fdiv (Fin 2) (Fin 4)) (1 / \<gamma>)))"
proof -
  have h: "4 < length (vals example_goes_selected)"
    by (simp add: example_goes_selected_def)
  have d: "4 div frame_size example_goes_selected = 0"
    by (simp add: frame_size_def example_goes_selected_def)
  have m: "nanmax1d (frame example_goes_selected (4 div frame_size example_goes_selected)) = Fin 4"
    unfolding d by (rule example_goes_max)
  have v: "vals example_goes_selected ! 4 = Fin 2"
    by (simp add: example_goes_selected_def)
  from rgb_divides_by_frame_maximum[OF example_goes_select h] example_goes_select h m v
  show ?thesis by auto
qed

lemma example_goes_flat_rgb:
  "rgb example_goes_flat =
     Inr (example_goes_selected\<lparr> vals := [Fin 1, Fin 0, Fin 1, Fin 0, Fin 1, Fin 0] \<rparr>)"
proof -
  have g: "green example_goes_flat =
     Inr (example_goes_flat\<lparr> band := [''green''], vals := [Fin 4, Fin (- 4)] \<rparr>)"
    by (simp add: green_def sel_band_def example_goes_flat_def plane_def frame_size_def upt_2
          f64_eval)
  have s: "rgb_select example_goes_flat =
      Inr (example_goes_selected\<lparr> vals := [Fin 4, Fin (- 4), Fin 4, Fin (- 4), Fin 4, Fin (- 4)] \<rparr>)"
    unfolding rgb_select_def g
    by (simp add: sel_bands_def concat_band_def example_goes_flat_def example_goes_selected_def
          plane_def frame_size_def upt_2)
  have n: "rgb_normalize
       (example_goes_selected\<lparr> vals := [Fin 4, Fin (- 4), Fin 4, Fin (- 4), Fin 4, Fin (- 4)] \<rparr>) =
      Inr (example_goes_selected\<lparr> vals := [Fin 1, Fin (- 1), Fin 1, Fin (- 1), Fin 1, Fin (- 1)] \<rparr>)"
    by (simp add: rgb_normalize_def frame_def frame_size_def example_goes_selected_def upt_6
          nanmax1d_def max_def f64_eval)
  show ?thesis
    unfolding rgb_def s sum.case n
    by (simp add: rgb_clamp_def rgb_gamma_def clamp01_def xr_where_def)
qed



text \<open>
  Claim C9. The comparison \<open>x > 0\<close> is false for NaN, so a value that enters the
  clamping step as NaN leaves it as 0, and no value of the output of \<open>rgb\<close> is NaN.
\<close>

theorem clamp_replaces_nan_by_zero:
  "\<not> fgt NaN 0 \<and>
   (i < length (vals g) \<and> isnan (vals g ! i) \<longrightarrow> vals (rgb_clamp g) ! i = Fin 0) \<and>
   (rgb d = Inr out \<longrightarrow> (\<forall>v\<in>set (vals out). \<not> isnan v))"
proof -
  have 1: "vals (rgb_clamp g) ! i = Fin 0" if "i < length (vals g)" "isnan (vals g ! i)"
  proof -
    from that(2) have "vals g ! i = NaN" by (cases "vals g ! i") simp_all
    then show ?thesis using that(1) by (simp add: rgb_clamp_def clamp01_def xr_where_def)
  qed
  have 2: "\<forall>v\<in>set (vals out). \<not> isnan v" if "rgb d = Inr out"
  proof -
    from rgb_Inr[OF that] obtain n where "out = rgb_clamp (rgb_gamma n)" by blast
    then have "vals out = map clamp01 (vals (rgb_gamma n))" by (simp add: rgb_clamp_def)
    moreover have "\<not> isnan (clamp01 u)" for u
      using clamp01_range[of u] by auto
    ultimately show ?thesis by auto
  qed
  show ?thesis using 1 2 by simp
qed

text \<open>
  In the frame with negative counts the quotient \<open>- 1\<close> has no real power: it enters
  the clamping step as NaN and leaves it as 0.
\<close>

theorem clamp_replaces_nan_by_zero_witness:
  "vals (rgb_gamma (example_goes_selected\<lparr> vals := [Fin 1, Fin (- 1), Fin 1, Fin (- 1), Fin 1, Fin (- 1)] \<rparr>))
     = [Fin 1, NaN, Fin 1, NaN, Fin 1, NaN] \<and>
   vals (rgb_clamp (rgb_gamma (example_goes_selected\<lparr> vals := [Fin 1, Fin (- 1), Fin 1, Fin (- 1), Fin 1, Fin (- 1)] \<rparr>))) ! 1
     = Fin 0 \<and>
   rgb example_goes_flat =
     Inr (example_goes_selected\<lparr> vals := [Fin 1, Fin 0, Fin 1, Fin 0, Fin 1, Fin 0] \<rparr>) \<and>
   \<not> isnan (vals (example_goes_selected\<lparr> vals := [Fin 1, Fin 0, Fin 1, Fin 0, Fin 1, Fin 0] \<rparr>) ! 1)"
proof -
  let ?n = "example_goes_selected\<lparr> vals := [Fin 1, Fin (- 1), Fin 1, Fin (- 1), Fin 1, Fin (- 1)] \<rparr>"
  let ?out = "example_goes_selected\<lparr> vals := [Fin 1, Fin 0, Fin 1, Fin 0, Fin 1, Fin 0] \<rparr>"
  have g: "vals (rgb_gamma ?n) = [Fin 1, NaN, Fin 1, NaN, Fin 1, NaN]"
    by (simp add: rgb_gamma_def)
  have i: "1 < length (vals (rgb_gamma ?n)) \<and> isnan (vals (rgb_gamma ?n) ! 1)"
    unfolding g by simp
  have r: "rgb example_goes_flat = Inr ?out"
    by (rule example_goes_flat_rgb)
  have v: "vals ?out = [Fin 1, Fin 0, Fin 1, Fin 0, Fin 1, Fin 0]" by simp
  have "\<forall>u\<in>set (vals ?out). \<not> isnan u"
    using clamp_replaces_nan_by_zero[of 1 "rgb_gamma ?n" example_goes_flat ?out] r by blast
  then have "\<not> isnan (vals ?out ! 1)" by simp
  with clamp_replaces_nan_by_zero[of 1 "rgb_gamma ?n" example_goes_flat ?out] i r g
  show ?thesis by blast
qed

end
